theory Spec2Isabelle
  imports Complex_Main "HOL-Library.Sublist" "HOL-Library.AList" "HOL-Library.Word"
begin

unbundle bit_operations_syntax

section \<open>Constant tables of converter.py\<close>

text \<open>
  The three lookup dictionaries of the Yamaha XF chord format and the rehearsal base
  table. Keys are Python integers, so they are \<open>int\<close> here; a dictionary that is only
  read is the \<open>map_of\<close> of its literal.
\<close>

definition XF_ROOT_DISP :: "int \<Rightarrow> string option" where
  "XF_ROOT_DISP = map_of
     [(0, ''bbb''), (1, ''bb''), (2, ''b''), (3, ''''), (4, ''#''), (5, ''##''), (6, ''###'')]"

definition XF_ROOT_NOTE :: "int \<Rightarrow> string option" where
  "XF_ROOT_NOTE = map_of
     [(1, ''C''), (2, ''D''), (3, ''E''), (4, ''F''), (5, ''G''), (6, ''A''), (7, ''B'')]"

definition XF_CHORD_TYPES_table :: "(int \<times> string) list" where
  "XF_CHORD_TYPES_table =
     [(0x00, ''''), (0x01, ''6''), (0x02, ''maj7''), (0x03, ''maj7(#11)''),
      (0x04, ''add9''), (0x05, ''maj9''), (0x06, ''6(9)''), (0x07, ''aug''),
      (0x08, ''m''), (0x09, ''m6''), (0x0A, ''m7''), (0x0B, ''m7b5''),
      (0x0C, ''m(add9)''), (0x0D, ''m9''), (0x0E, ''m11''), (0x0F, ''m(maj7)''),
      (0x10, ''m(maj7,9)''), (0x11, ''dim''), (0x12, ''dim7''), (0x13, ''7''),
      (0x14, ''7sus4''), (0x15, ''7b5''), (0x16, ''7(9)''), (0x17, ''7(#11)''),
      (0x18, ''7(13)''), (0x19, ''7(b9)''), (0x1A, ''7(b13)''), (0x1B, ''7(#9)''),
      (0x1C, ''maj7aug''), (0x1D, ''7aug''), (0x1E, ''1+8''), (0x1F, ''1+5''),
      (0x20, ''sus4''), (0x21, ''1+2+5''), (0x22, ''N.C.'')]"

definition XF_CHORD_TYPES :: "int \<Rightarrow> string option" where
  "XF_CHORD_TYPES = map_of XF_CHORD_TYPES_table"

definition XF_REHE_ID :: int where
  "XF_REHE_ID = 0x02"

definition XF_REHE_BASE_table :: "(int \<times> string) list" where
  "XF_REHE_BASE_table =
     [(0, ''Intro''), (1, ''Ending''), (2, ''Fill-in''),
      (3, ''A''), (4, ''B''), (5, ''C''), (6, ''D''), (7, ''E''), (8, ''F''), (9, ''G''),
      (10, ''H''), (11, ''I''), (12, ''J''), (13, ''K''), (14, ''L''), (15, ''M'')]"

definition XF_REHE_BASE :: "int \<Rightarrow> string option" where
  "XF_REHE_BASE = map_of XF_REHE_BASE_table"

definition XF_META_HEADER :: "int list" where
  "XF_META_HEADER = [0x43, 0x7B]"

definition XF_CHORD_ID :: int where
  "XF_CHORD_ID = 0x01"

section \<open>The binary chord decoder\<close>

text \<open>
  \<open>parse_note_byte\<close> is the routine nested in \<open>_parse_xf_chord_sysex\<close> that decodes
  a root byte and a bass byte alike. Python's \<open>>>\<close> and \<open>&\<close> on unbounded integers are
  \<open>drop_bit\<close> and \<open>AND\<close> on \<open>int\<close>. \<open>None\<close> is Python's \<open>None\<close>.
\<close>

definition parse_note_byte :: "int \<Rightarrow> string option" where
  "parse_note_byte note_byte =
     (if note_byte = 127 then None
      else
        let fff = (drop_bit 4 note_byte) AND 7;
            nnnn = note_byte AND 0x0F
        in case (XF_ROOT_DISP fff, XF_ROOT_NOTE nnnn) of
             (Some disp_str, Some note_str) \<Rightarrow> Some (note_str @ disp_str)
           | _ \<Rightarrow> None)"

text \<open>
  \<open>_parse_xf_chord_sysex\<close>. The indexing \<open>chord_bytes[0]\<close>, \<open>[1]\<close>, \<open>[2]\<close> happens only
  behind the length checks, so \<open>!\<close> is never read out of range. The test
  \<open>if bass_str and root_str != bass_str\<close> is false for \<open>None\<close> and for the empty string.
\<close>

definition parse_xf_chord_sysex :: "int list \<Rightarrow> string option" where
  "parse_xf_chord_sysex chord_bytes =
     (if \<not> (2 \<le> length chord_bytes \<and> length chord_bytes \<le> 4) then None
      else
        let cr = chord_bytes ! 0;
            ct = chord_bytes ! 1;
            bn = (if 3 \<le> length chord_bytes then chord_bytes ! 2 else 127)
        in (case XF_CHORD_TYPES ct of
              None \<Rightarrow> None
            | Some type_str \<Rightarrow>
                (if type_str = ''N.C.'' then Some ''N.C.''
                 else (case parse_note_byte cr of
                         None \<Rightarrow> None
                       | Some root_str \<Rightarrow>
                           (let bass_str = parse_note_byte bn;
                                chord_figure = root_str @ type_str
                            in (case bass_str of
                                  None \<Rightarrow> Some chord_figure
                                | Some b \<Rightarrow>
                                    (if b \<noteq> [] \<and> root_str \<noteq> b
                                     then Some (chord_figure @ CHR ''/'' # b)
                                     else Some chord_figure)))))))"


section \<open>The message stream\<close>

text \<open>
  The messages that \<open>mido.merge_tracks\<close> yields, as far as converter.py looks at them:
  the message type, the delta time \<open>msg.time\<close>, and the attributes read per type.
  Channel messages carry \<open>channel\<close>; system messages (sysex and the like) are neither
  meta nor have a channel; \<open>sequencer_specific\<close>, the three text types and all other
  meta messages have \<open>is_meta\<close> set.
\<close>

datatype text_type = Text | Lyrics | Marker

datatype msg =
    NoteOn (time: int) (channel: int) (msg_note: int) (velocity: int)
  | NoteOff (time: int) (channel: int) (msg_note: int) (velocity: int)
  | ChannelMsg (time: int) (channel: int)
  | SystemMsg (time: int)
  | SequencerSpecific (time: int) (data: "int list")
  | TextMeta (time: int) (text_type: text_type) (msg_text: string)
  | OtherMeta (time: int)

fun is_meta :: "msg \<Rightarrow> bool" where
  "is_meta (SequencerSpecific _ _) = True"
| "is_meta (TextMeta _ _ _) = True"
| "is_meta (OtherMeta _) = True"
| "is_meta _ = False"

text \<open>
  An opened file: \<open>mf.ticks_per_beat\<close> and the merged stream
  \<open>mido.merge_tracks(mf.tracks)\<close>. Opening is the library's work; its outcome is an
  input of the scans, \<open>Inl\<close> when \<open>mido.MidiFile(path)\<close> raises.
\<close>

record midi_file =
  ticks_per_beat :: int
  merged :: "msg list"

datatype error = MidiOpenError | ZeroDivisionError

section \<open>The rehearsal-mark scan\<close>

text \<open>
  The label computed in the body of \<open>_parse_rehe_from_midi\<close> from the data byte \<open>rr\<close>;
  \<open>"'" * var_idx\<close> is \<open>replicate\<close>, and \<open>XF_REHE_BASE.get(base_idx, "?")\<close> has the
  default written out.
\<close>

definition rehe_mark_text :: "int \<Rightarrow> string" where
  "rehe_mark_text rr =
     (let base_idx = rr AND 0x0F;
          var_idx = (drop_bit 4 rr) AND 0x07;
          base_str = (case XF_REHE_BASE base_idx of Some s \<Rightarrow> s | None \<Rightarrow> ''?'');
          var_str = replicate (nat var_idx) (CHR 0x27)
      in base_str @ var_str)"

text \<open>
  One iteration of the loop of \<open>_parse_rehe_from_midi\<close>; the state is
  \<open>(absolute_time_ticks, rehearsal_marks)\<close>. \<open>msg.data[:2] == XF_META_HEADER\<close> is
  \<open>take 2\<close>.
\<close>

fun rehe_step :: "int \<times> (int \<times> string) list \<Rightarrow> msg \<Rightarrow> int \<times> (int \<times> string) list" where
  "rehe_step (absolute_time_ticks, rehearsal_marks) m =
     (let ticks = absolute_time_ticks + time m
      in (case m of
            SequencerSpecific _ d \<Rightarrow>
              (if 2 < length d \<and> take 2 d = XF_META_HEADER then
                 (let event_id = d ! 2
                  in if event_id = XF_REHE_ID then
                       (if 3 < length d
                        then (ticks, rehearsal_marks @ [(ticks, rehe_mark_text (d ! 3))])
                        else (ticks, rehearsal_marks))
                     else (ticks, rehearsal_marks))
               else (ticks, rehearsal_marks))
          | _ \<Rightarrow> (ticks, rehearsal_marks)))"

text \<open>
  \<open>_parse_rehe_from_midi\<close>: a failure to open the file is caught, reported on stderr
  and answered with the empty list; the function itself never raises.
\<close>

definition parse_rehe_from_midi :: "error + midi_file \<Rightarrow> error + (int \<times> string) list" where
  "parse_rehe_from_midi opened =
     (case opened of
        Inl e \<Rightarrow> Inr []
      | Inr mf \<Rightarrow> Inr (snd (foldl rehe_step (0, []) (merged mf))))"

section \<open>The melody extractor\<close>

text \<open>
  A \<open>note.Note\<close> as converter.py fills it: the pitch, \<open>offset\<close> and
  \<open>duration.quarterLength\<close>. Both are results of Python's true division \<open>/\<close> of two
  integers, a float; the division is the parameter \<open>truediv\<close> of the scan, so that
  nothing is assumed about rounding. It raises \<open>ZeroDivisionError\<close> on a zero divisor,
  which the scan checks before calling it.
\<close>

record 'q melody_note =
  pitch :: int
  offset :: 'q
  quarterLength :: 'q

text \<open>
  The loop state of \<open>_parse_melody_with_mido\<close>. The dictionary \<open>open_notes\<close> is an
  association list in insertion order: \<open>open_notes[k] = v\<close> is \<open>AList.update\<close> (replace
  in place, or append), \<open>k in open_notes\<close> and the lookup are \<open>map_of\<close>, and
  \<open>open_notes.pop(k)\<close> removes the entry with \<open>AList.delete\<close>.
\<close>

record 'q melody_state =
  absolute_time_ticks :: int
  open_notes :: "(int \<times> int \<times> int) list"
  notes_list :: "'q melody_note list"

definition close_note ::
  "(int \<Rightarrow> int \<Rightarrow> 'q) \<Rightarrow> int \<Rightarrow> int \<Rightarrow> 'q melody_state \<Rightarrow> error + 'q melody_state" where
  "close_note truediv ticks_per_quarter n st =
     (case map_of (open_notes st) n of
        None \<Rightarrow> Inr st
      | Some (start_tick, vel) \<Rightarrow>
          (let popped = AList.delete n (open_notes st);
               duration_ticks = absolute_time_ticks st - start_tick
           in if ticks_per_quarter = 0 then Inl ZeroDivisionError
              else Inr (st\<lparr>open_notes := popped,
                          notes_list := notes_list st @
                            [\<lparr>pitch = n,
                              offset = truediv start_tick ticks_per_quarter,
                              quarterLength = truediv duration_ticks ticks_per_quarter\<rparr>]\<rparr>)))"

text \<open>
  One iteration of the loop. Meta messages only advance the tick count; so do
  messages without a channel (\<open>hasattr(msg, 'channel')\<close> fails) and messages on
  another channel than 0.
\<close>

definition melody_step ::
  "(int \<Rightarrow> int \<Rightarrow> 'q) \<Rightarrow> int \<Rightarrow> 'q melody_state \<Rightarrow> msg \<Rightarrow> error + 'q melody_state" where
  "melody_step truediv ticks_per_quarter st0 m =
     (let st = st0\<lparr>absolute_time_ticks := absolute_time_ticks st0 + time m\<rparr>
      in if is_meta m then Inr st
         else (case m of
                 NoteOn _ ch n vel \<Rightarrow>
                   (if ch = 0 then
                      (if 0 < vel
                       then Inr (st\<lparr>open_notes :=
                                   AList.update n (absolute_time_ticks st, vel) (open_notes st)\<rparr>)
                       else if vel = 0 then close_note truediv ticks_per_quarter n st
                       else Inr st)
                    else Inr st)
               | NoteOff _ ch n vel \<Rightarrow>
                   (if ch = 0 then close_note truediv ticks_per_quarter n st else Inr st)
               | _ \<Rightarrow> Inr st))"

fun melody_loop ::
  "(int \<Rightarrow> int \<Rightarrow> 'q) \<Rightarrow> int \<Rightarrow> 'q melody_state \<Rightarrow> msg list \<Rightarrow> error + 'q melody_state" where
  "melody_loop truediv ticks_per_quarter st [] = Inr st"
| "melody_loop truediv ticks_per_quarter st (m # ms) =
     (case melody_step truediv ticks_per_quarter st m of
        Inl e \<Rightarrow> Inl e
      | Inr st' \<Rightarrow> melody_loop truediv ticks_per_quarter st' ms)"

text \<open>
  \<open>_parse_melody_with_mido\<close>: the file is opened outside any \<open>try\<close>, so a failure to
  open propagates to the caller. Entries left in \<open>open_notes\<close> are dropped with it.
\<close>

definition parse_melody_with_mido ::
  "(int \<Rightarrow> int \<Rightarrow> 'q) \<Rightarrow> error + midi_file \<Rightarrow> int \<Rightarrow> error + 'q melody_note list" where
  "parse_melody_with_mido truediv opened ticks_per_quarter =
     (case opened of
        Inl e \<Rightarrow> Inl e
      | Inr mf \<Rightarrow>
          (case melody_loop truediv ticks_per_quarter
                  \<lparr>absolute_time_ticks = 0, open_notes = [], notes_list = []\<rparr> (merged mf) of
             Inl e \<Rightarrow> Inl e
           | Inr st \<Rightarrow> Inr (notes_list st)))"

text \<open>
  Vocabulary for the statements about the melody scan: a message that ends a note of
  pitch \<open>p\<close> on channel 0 (an explicit note-off, or a note-on with velocity 0), a
  message that is any note-on or note-off of pitch \<open>p\<close> on channel 0, and the ticks a
  run of messages takes.
\<close>

fun note_end :: "int \<Rightarrow> msg \<Rightarrow> bool" where
  "note_end p (NoteOff _ ch n _) = (ch = 0 \<and> n = p)"
| "note_end p (NoteOn _ ch n vel) = (ch = 0 \<and> n = p \<and> vel = 0)"
| "note_end p _ = False"

fun note_event :: "int \<Rightarrow> msg \<Rightarrow> bool" where
  "note_event p (NoteOff _ ch n _) = (ch = 0 \<and> n = p)"
| "note_event p (NoteOn _ ch n vel) = (ch = 0 \<and> n = p \<and> 0 \<le> vel)"
| "note_event p _ = False"

definition ticks_of :: "msg list \<Rightarrow> int" where
  "ticks_of ms = sum_list (map time ms)"

section \<open>Strings and regular expressions as converter.py uses them\<close>

text \<open>
  Figures and event texts are Python strings whose characters are code points below
  256: the decoder builds ASCII figures, and mido decodes the text of a meta message
  as Latin-1. A \<open>string\<close> here is the list of those code points. \<open>is_word\<close> is the class
  \<open>\w\<close> of the \<open>re\<close> module on them, which is Unicode-aware for \<open>str\<close> patterns: the ASCII
  letters, digits and underscore, and the 71 alphanumeric code points of the upper
  half (feminine and masculine ordinal, superscript digits, micro sign, the vulgar
  fractions, and the accented letters without the multiplication and division
  signs). \<open>word_boundary prev s\<close> is the assertion \<open>\b\<close> at a position whose preceding
  character is \<open>prev\<close> (\<open>None\<close> at the start of the text) and whose remaining text is \<open>s\<close>.
\<close>

definition is_word :: "char \<Rightarrow> bool" where
  "is_word c \<longleftrightarrow>
     c \<in> set (''abcdefghijklmnopqrstuvwxyz'' @ ''ABCDEFGHIJKLMNOPQRSTUVWXYZ'' @ ''0123456789_'')
     \<or> (let n = (of_char c :: nat)
         in n \<in> {0xAA, 0xB2, 0xB3, 0xB5, 0xB9, 0xBA}
            \<or> (0xBC \<le> n \<and> n \<le> 0xBE) \<or> (0xC0 \<le> n \<and> n \<le> 0xD6)
            \<or> (0xD8 \<le> n \<and> n \<le> 0xF6) \<or> 0xF8 \<le> n)"

definition word_boundary :: "char option \<Rightarrow> string \<Rightarrow> bool" where
  "word_boundary prev s \<longleftrightarrow>
     (case prev of None \<Rightarrow> False | Some c \<Rightarrow> is_word c)
       \<noteq> (case s of [] \<Rightarrow> False | c # _ \<Rightarrow> is_word c)"

text \<open>
  \<open>str.replace(old, new)\<close>: every occurrence of \<open>old\<close>, found from the left without
  overlap, is replaced. With an empty \<open>old\<close> Python inserts \<open>new\<close> before every
  character and at the end.
\<close>

fun str_replace :: "string \<Rightarrow> string \<Rightarrow> string \<Rightarrow> string" where
  "str_replace old new [] = (if old = [] then new else [])"
| "str_replace old new (c # cs) =
     (if old = [] then new @ c # str_replace old new cs
      else if prefix old (c # cs)
           then new @ str_replace old new (drop (length old) (c # cs))
           else c # str_replace old new cs)"

text \<open>
  \<open>str.strip()\<close> removes the white space at both ends; the characters below are
  those with \<open>str.isspace()\<close> among the first 256 code points.
\<close>

definition py_isspace :: "char \<Rightarrow> bool" where
  "py_isspace c \<longleftrightarrow>
     c \<in> {CHR 0x09, CHR 0x0A, CHR 0x0B, CHR 0x0C, CHR 0x0D,
          CHR 0x1C, CHR 0x1D, CHR 0x1E, CHR 0x1F, CHR 0x20, CHR 0x85, CHR 0xA0}"

definition strip :: "string \<Rightarrow> string" where
  "strip s = rev (dropWhile py_isspace (rev (dropWhile py_isspace s)))"

section \<open>The chord-figure normalizer\<close>

text \<open>
  The dictionary and the callback \<open>simplify_enharmonics\<close> nested in
  \<open>_normalize_chord_figure\<close>: \<open>enharmonic_map.get(note_name, note_name)\<close>.
\<close>

definition enharmonic_map :: "string \<Rightarrow> string option" where
  "enharmonic_map = map_of
     [(''E#'', ''F''), (''B#'', ''C''), (''Fb'', ''E''), (''Cb'', ''B''),
      (''Dbb'', ''C''), (''Ebb'', ''D''), (''Gbb'', ''F''), (''Abb'', ''G''), (''Bbb'', ''A'')]"

definition simplify_enharmonics :: "string \<Rightarrow> string" where
  "simplify_enharmonics note_name =
     (case enharmonic_map note_name of Some r \<Rightarrow> r | None \<Rightarrow> note_name)"

text \<open>
  One attempt of the pattern \<open>\b[A-G](?:bb|##|b|#)\b\<close> at a position. \<open>match_alts\<close>
  tries the alternatives of the group in their order, each followed by the closing
  \<open>\b\<close>, as the backtracking matcher does; the result is the matched text.
\<close>

fun match_alts :: "char \<Rightarrow> string list \<Rightarrow> string \<Rightarrow> string option" where
  "match_alts c [] rest = None"
| "match_alts c (a # as) rest =
     (if prefix a rest \<and> word_boundary (Some (last (c # a))) (drop (length a) rest)
      then Some (c # a)
      else match_alts c as rest)"

definition match_note_name :: "char option \<Rightarrow> string \<Rightarrow> string option" where
  "match_note_name prev s =
     (case s of
        [] \<Rightarrow> None
      | c # rest \<Rightarrow>
          (if c \<in> set ''ABCDEFG'' \<and> word_boundary prev s
           then match_alts c [''bb'', ''##'', ''b'', ''#''] rest
           else None))"

text \<open>
  \<open>re.sub(pattern, simplify_enharmonics, figure)\<close>: the text is scanned from the left;
  where the pattern matches, the callback's result replaces the match and the scan
  goes on behind it, otherwise the character is kept. \<open>prev\<close> is the character before
  the position in the original text, which \<open>\b\<close> looks at.
\<close>

function re_sub_note_names :: "char option \<Rightarrow> string \<Rightarrow> string" where
  "re_sub_note_names prev [] = []"
| "re_sub_note_names prev (c # cs) =
     (case match_note_name prev (c # cs) of
        Some tok \<Rightarrow>
          simplify_enharmonics tok
            @ re_sub_note_names (Some (last tok)) (drop (length tok) (c # cs))
      | None \<Rightarrow> c # re_sub_note_names (Some c) cs)"
  by pat_completeness auto
termination
proof (relation "measure (\<lambda>(prev, s). length s)")
  show "wf (measure (\<lambda>(prev, s). length s))" by simp
next
  fix prev :: "char option" and c :: char and cs tok :: string
  assume "match_note_name prev (c # cs) = Some tok"
  then have "tok \<noteq> []"
    by (auto simp: match_note_name_def split: if_splits)
  then show "((Some (last tok), drop (length tok) (c # cs)), prev, c # cs)
      \<in> measure (\<lambda>(prev, s). length s)"
    by (cases tok) simp_all
next
  fix prev :: "char option" and c :: char and cs :: string
  show "((Some c, cs), prev, c # cs) \<in> measure (\<lambda>(prev, s). length s)" by simp
qed

text \<open>\<open>_normalize_chord_figure\<close>, its three steps in the order of the source.\<close>

definition normalize_chord_figure :: "string \<Rightarrow> string" where
  "normalize_chord_figure figure =
     (if figure = [] \<or> figure = ''N.C.'' then figure
      else
        let figure1 = re_sub_note_names None figure;
            figure2 = str_replace ''add9'' ''add2'' figure1;
            figure3 = str_replace ''m7(11)'' ''m11'' figure2;
            figure4 = str_replace ''m(maj7,9)'' ''m(maj9)'' figure3
        in str_replace ''b'' ''-'' (str_replace ''bb'' ''--'' figure4))"


text \<open>
  A text is guarded when every \<open>E#\<close> or \<open>B#\<close> in it that is followed by a word
  character is preceded by a word character other than \<open>b\<close>: then the pattern of the
  enharmonic pass cannot match there, neither now nor after the flats are rewritten.
  \<open>prev\<close> is the character before the text.
\<close>

definition good_guard :: "char option \<Rightarrow> bool" where
  "good_guard prev = (case prev of None \<Rightarrow> False | Some p \<Rightarrow> is_word p \<and> p \<noteq> CHR ''b'')"

fun sharp_then_word :: "string \<Rightarrow> bool" where
  "sharp_then_word (h # w # rest) = (h = CHR ''#'' \<and> is_word w)"
| "sharp_then_word _ = False"

fun guarded :: "char option \<Rightarrow> string \<Rightarrow> bool" where
  "guarded prev [] = True"
| "guarded prev (c # cs) =
     ((if c \<in> set ''EB'' \<and> sharp_then_word cs then good_guard prev else True)
      \<and> guarded (Some c) cs)"

text \<open>
  The figures on which a second run of the normalizer has nothing left to do: those
  without a flat directly before \<open>E#\<close> or \<open>B#\<close>, and without \<open>Fb\<close> or \<open>Cb\<close> directly
  before a sharp.
\<close>

definition flat_sharp_free :: "string \<Rightarrow> bool" where
  "flat_sharp_free s \<longleftrightarrow>
     \<not> sublist ''bE#'' s \<and> \<not> sublist ''bB#'' s \<and> \<not> sublist ''Fb#'' s \<and> \<not> sublist ''Cb#'' s"

section \<open>The text chord heuristic\<close>

text \<open>
  The pattern of \<open>re.search\<close> in \<open>_parse_chords_from_midi\<close>,
  \<^verbatim>\<open>[^A-G]*([A-G][b#]?(?:maj|min|m|M|dim|aug|sus|add|[-_])?[0-9]*(?:\(.*\))?(?:/[A-G][b#]?)?)\b\<close>,
  as a backtracking matcher. A position is the character before it and the text
  that remains; a matcher maps a position to the positions where it can end, in the
  order in which the \<open>re\<close> module tries them (a greedy quantifier tries the longest
  first, an alternation its branches from the left), so that the head of the list is
  where the match is found.
\<close>

type_synonym pos = "char option \<times> string"

type_synonym matcher = "pos \<Rightarrow> pos list"

fun cls :: "(char \<Rightarrow> bool) \<Rightarrow> matcher" where
  "cls P (prev, []) = []"
| "cls P (prev, c # cs) = (if P c then [(Some c, cs)] else [])"

fun lit :: "string \<Rightarrow> matcher" where
  "lit [] p = [p]"
| "lit (x # xs) (prev, []) = []"
| "lit (x # xs) (prev, c # cs) = (if x = c then lit xs (Some c, cs) else [])"

definition seq :: "matcher \<Rightarrow> matcher \<Rightarrow> matcher" where
  "seq m1 m2 p = concat (map m2 (m1 p))"

definition alt :: "matcher \<Rightarrow> matcher \<Rightarrow> matcher" where
  "alt m1 m2 p = m1 p @ m2 p"

definition opt :: "matcher \<Rightarrow> matcher" where
  "opt m p = m p @ [p]"

fun star_cls :: "(char \<Rightarrow> bool) \<Rightarrow> matcher" where
  "star_cls P (prev, []) = [(prev, [])]"
| "star_cls P (prev, c # cs) =
     (if P c then star_cls P (Some c, cs) @ [(prev, c # cs)] else [(prev, c # cs)])"

definition wordb :: matcher where
  "wordb p = (if word_boundary (fst p) (snd p) then [p] else [])"

definition note_letter :: "char \<Rightarrow> bool" where
  "note_letter c \<longleftrightarrow> c \<in> set ''ABCDEFG''"

definition quality :: matcher where
  "quality =
     alt (lit ''maj'') (alt (lit ''min'') (alt (lit ''m'') (alt (lit ''M'')
       (alt (lit ''dim'') (alt (lit ''aug'') (alt (lit ''sus'') (alt (lit ''add'')
         (cls (\<lambda>c. c \<in> set ''-_''))))))))) "

definition chord_body :: matcher where
  "chord_body =
     seq (cls note_letter)
       (seq (opt (cls (\<lambda>c. c \<in> set ''b#'')))
         (seq (opt quality)
           (seq (star_cls (\<lambda>c. c \<in> set ''0123456789''))
             (seq (opt (seq (lit ''('') (seq (star_cls (\<lambda>c. c \<noteq> CHR 0x0A)) (lit '')''))))
               (opt (seq (lit ''/'')
                      (seq (cls note_letter) (opt (cls (\<lambda>c. c \<in> set ''b#''))))))))))"

text \<open>
  The matches of the whole pattern that start at one position, each with its group 1:
  the text between the end of \<open>[^A-G]*\<close> and the end of the match.
\<close>

definition chord_pattern_at :: "pos \<Rightarrow> string list" where
  "chord_pattern_at p =
     concat (map (\<lambda>g. map (\<lambda>e. take (length (snd g) - length (snd e)) (snd g))
                          (seq chord_body wordb g))
                 (star_cls (\<lambda>c. \<not> note_letter c) p))"

text \<open>
  \<open>re.search\<close>: the first start position, from the left, at which the pattern matches;
  the result is \<open>match.group(1)\<close>, or \<open>None\<close> when there is no match.
\<close>

fun re_search_chord :: "char option \<Rightarrow> string \<Rightarrow> string option" where
  "re_search_chord prev [] =
     (case chord_pattern_at (prev, []) of g # _ \<Rightarrow> Some g | [] \<Rightarrow> None)"
| "re_search_chord prev (c # cs) =
     (case chord_pattern_at (prev, c # cs) of
        g # _ \<Rightarrow> Some g
      | [] \<Rightarrow> re_search_chord (Some c) cs)"

text \<open>
  The text branch of the loop body: the stripped text, if not empty, is searched once;
  the candidate is handed to \<open>harmony.ChordSymbol\<close>, here the parameter \<open>valid\<close> (true
  when the constructor returns, false when it raises), and kept only if that
  succeeds.
\<close>

definition text_chord :: "(string \<Rightarrow> bool) \<Rightarrow> string \<Rightarrow> string option" where
  "text_chord valid raw =
     (let txt = strip raw
      in if txt = [] then None
         else (case re_search_chord None txt of
                 None \<Rightarrow> None
               | Some parsed_text \<Rightarrow> if valid parsed_text then Some parsed_text else None))"

section \<open>The chord scan\<close>

text \<open>
  What the scan appends to \<open>chords\<close>: the object \<open>cs\<close>, either \<open>harmony.NoChord()\<close> or
  \<open>harmony.ChordSymbol(normalized_text)\<close>, paired with its \<open>cs.offset\<close>. The music21
  library is outside converter.py; what the scan needs of it are two parameters:
  \<open>valid figure\<close>, true when \<open>harmony.ChordSymbol(figure)\<close> returns and false when it
  raises, and \<open>truthy cs\<close>, the truth value of the object in \<open>if cs:\<close>. The true
  division of the offset is the parameter \<open>truediv\<close>, as in the melody scan.
\<close>

datatype chord = NoChord | ChordSymbol string

text \<open>
  The XF branch of the loop body, from the data of a \<open>sequencer_specific\<close> message
  to \<open>current_chord_text\<close>. The \<open>continue\<close> on an empty byte tuple leaves the
  iteration as \<open>current_chord_text = None\<close> does, since nothing follows but the
  construction of the chord.
\<close>

definition xf_chord_text :: "int list \<Rightarrow> string option" where
  "xf_chord_text d =
     (if 2 < length d \<and> take 2 d = XF_META_HEADER then
        (let event_id = d ! 2
         in if event_id = XF_CHORD_ID then
              (let payload = drop 3 d;
                   chord_bytes = filter (\<lambda>b. b \<noteq> 0x7F) payload
               in if chord_bytes = [] then None else parse_xf_chord_sysex chord_bytes)
            else None)
      else None)"

definition current_chord_text :: "(string \<Rightarrow> bool) \<Rightarrow> msg \<Rightarrow> string option" where
  "current_chord_text valid m =
     (case m of
        SequencerSpecific _ d \<Rightarrow> xf_chord_text d
      | TextMeta _ _ txt \<Rightarrow> text_chord valid txt
      | _ \<Rightarrow> None)"

text \<open>
  The \<open>try\<close> block that builds the chord object: \<open>None\<close> is the \<open>except\<close> branch
  (a warning is printed and the event is dropped).
\<close>

definition make_chord :: "(string \<Rightarrow> bool) \<Rightarrow> string \<Rightarrow> chord option" where
  "make_chord valid chord_text =
     (if chord_text = ''N.C.'' then Some NoChord
      else
        let normalized_text = normalize_chord_figure chord_text
        in if valid normalized_text then Some (ChordSymbol normalized_text) else None)"

text \<open>
  One iteration of the loop of \<open>_parse_chords_from_midi\<close>; the state is
  \<open>absolute_time_ticks\<close> (\<open>ticks_before\<close> the message, \<open>ticks\<close> after \<open>+= msg.time\<close>) and
  \<open>chords\<close>. The division \<open>absolute_time_ticks / ticks_per_quarter\<close> is inside the
  \<open>try\<close>, so a zero divisor drops the event too.
\<close>

fun chord_step ::
  "(int \<Rightarrow> int \<Rightarrow> 'q) \<Rightarrow> (string \<Rightarrow> bool) \<Rightarrow> (chord \<Rightarrow> bool) \<Rightarrow> int
     \<Rightarrow> int \<times> ('q \<times> chord) list \<Rightarrow> msg \<Rightarrow> int \<times> ('q \<times> chord) list" where
  "chord_step truediv valid truthy ticks_per_quarter (ticks_before, chords) m =
     (let ticks = ticks_before + time m
      in (case current_chord_text valid m of
            None \<Rightarrow> (ticks, chords)
          | Some chord_text \<Rightarrow>
              (if chord_text = [] then (ticks, chords)
               else (case make_chord valid chord_text of
                       None \<Rightarrow> (ticks, chords)
                     | Some cs \<Rightarrow>
                         (if truthy cs \<and> ticks_per_quarter \<noteq> 0
                          then (ticks, chords @ [(truediv ticks ticks_per_quarter, cs)])
                          else (ticks, chords))))))"

text \<open>
  \<open>_parse_chords_from_midi\<close>: as in the rehearsal scan, a failure to open the file
  is caught, reported on stderr and answered with the empty list.
\<close>

definition parse_chords_from_midi ::
  "(int \<Rightarrow> int \<Rightarrow> 'q) \<Rightarrow> (string \<Rightarrow> bool) \<Rightarrow> (chord \<Rightarrow> bool) \<Rightarrow> error + midi_file \<Rightarrow> int
     \<Rightarrow> error + ('q \<times> chord) list" where
  "parse_chords_from_midi truediv valid truthy opened ticks_per_quarter =
     (case opened of
        Inl e \<Rightarrow> Inr []
      | Inr mf \<Rightarrow>
          Inr (snd (foldl (chord_step truediv valid truthy ticks_per_quarter) (0, [])
                      (merged mf))))"

section \<open>Properties of the binary chord decoder\<close>

lemma XF_CHORD_TYPES_no_slash:
  assumes "XF_CHORD_TYPES ct = Some t"
  shows "CHR ''/'' \<notin> set t"
proof -
  from assms have "(ct, t) \<in> set XF_CHORD_TYPES_table"
    unfolding XF_CHORD_TYPES_def by (rule map_of_SomeD)
  then show ?thesis
    unfolding XF_CHORD_TYPES_table_def by auto
qed

lemma XF_CHORD_TYPES_NC: "XF_CHORD_TYPES 0x22 = Some ''N.C.''"
  by (simp add: XF_CHORD_TYPES_def XF_CHORD_TYPES_table_def)

lemma XF_ROOT_DISP_range: "XF_ROOT_DISP fff = None \<longleftrightarrow> fff \<notin> {0..6}"
  unfolding XF_ROOT_DISP_def by (simp; presburger)

lemma XF_ROOT_NOTE_range: "XF_ROOT_NOTE n = None \<longleftrightarrow> n \<notin> {1..7}"
  unfolding XF_ROOT_NOTE_def by (simp; presburger)

lemma XF_ROOT_DISP_no_slash: "XF_ROOT_DISP fff = Some d \<Longrightarrow> CHR ''/'' \<notin> set d"
  unfolding XF_ROOT_DISP_def by (auto split: if_splits)

lemma XF_ROOT_NOTE_no_slash: "XF_ROOT_NOTE n = Some d \<Longrightarrow> CHR ''/'' \<notin> set d \<and> d \<noteq> []"
  unfolding XF_ROOT_NOTE_def by (auto split: if_splits)

lemma parse_note_byte_no_slash:
  "parse_note_byte b = Some r \<Longrightarrow> CHR ''/'' \<notin> set r \<and> r \<noteq> []"
  unfolding parse_note_byte_def Let_def
  by (auto split: if_splits option.splits
        dest: XF_ROOT_DISP_no_slash XF_ROOT_NOTE_no_slash)

lemma parse_note_byte_None_iff:
  "parse_note_byte b = None \<longleftrightarrow>
     b = 127 \<or> (drop_bit 4 b) AND 7 \<notin> {0..6} \<or> b AND 0x0F \<notin> {1..7}"
  unfolding parse_note_byte_def Let_def
  using XF_ROOT_DISP_range [of "(drop_bit 4 b) AND 7"] XF_ROOT_NOTE_range [of "b AND 0x0F"]
  by (auto split: option.splits)

lemma parse_note_byte_127: "parse_note_byte 127 = None"
  by (simp add: parse_note_byte_def)

lemma parse_note_byte_C: "parse_note_byte 0x31 = Some ''C''"
  by (simp add: parse_note_byte_def XF_ROOT_DISP_def XF_ROOT_NOTE_def)

text \<open>
  C1 (as amended). For a byte sequence of length 2 to 4 the decoder returns no figure
  when the type byte is not in the chord-type table, and when the type is not the
  no-chord code and the root byte is 127 or has an accidental code outside 0..6 or a
  letter code outside 1..7. An undecodable bass byte does not make the decoder fail:
  the shared routine's \<open>None\<close> is read as "no bass", and the figure is root followed by
  type, without a slash suffix.
\<close>

theorem chord_decoder_unrecognized:
  assumes "2 \<le> length chord_bytes" and "length chord_bytes \<le> 4"
  shows "(XF_CHORD_TYPES (chord_bytes ! 1) = None \<longrightarrow> parse_xf_chord_sysex chord_bytes = None)
       \<and> (XF_CHORD_TYPES (chord_bytes ! 1) \<noteq> Some ''N.C.''
            \<and> (chord_bytes ! 0 = 127
                 \<or> (drop_bit 4 (chord_bytes ! 0)) AND 7 \<notin> {0..6}
                 \<or> (chord_bytes ! 0) AND 0x0F \<notin> {1..7})
          \<longrightarrow> parse_xf_chord_sysex chord_bytes = None)
       \<and> (\<forall>t r. XF_CHORD_TYPES (chord_bytes ! 1) = Some t \<and> t \<noteq> ''N.C.''
                 \<and> parse_note_byte (chord_bytes ! 0) = Some r
                 \<and> 3 \<le> length chord_bytes
                 \<and> ((drop_bit 4 (chord_bytes ! 2)) AND 7 \<notin> {0..6}
                      \<or> (chord_bytes ! 2) AND 0x0F \<notin> {1..7})
          \<longrightarrow> parse_xf_chord_sysex chord_bytes = Some (r @ t))"
proof (intro conjI impI allI)
  assume "XF_CHORD_TYPES (chord_bytes ! 1) = None"
  with assms show "parse_xf_chord_sysex chord_bytes = None"
    by (simp add: parse_xf_chord_sysex_def)
next
  assume a: "XF_CHORD_TYPES (chord_bytes ! 1) \<noteq> Some ''N.C.''
     \<and> (chord_bytes ! 0 = 127
          \<or> (drop_bit 4 (chord_bytes ! 0)) AND 7 \<notin> {0..6}
          \<or> (chord_bytes ! 0) AND 0x0F \<notin> {1..7})"
  then have "parse_note_byte (chord_bytes ! 0) = None"
    by (simp add: parse_note_byte_None_iff)
  with a assms show "parse_xf_chord_sysex chord_bytes = None"
    by (auto simp: parse_xf_chord_sysex_def split: option.splits)
next
  fix t r
  assume a: "XF_CHORD_TYPES (chord_bytes ! 1) = Some t \<and> t \<noteq> ''N.C.''
     \<and> parse_note_byte (chord_bytes ! 0) = Some r
     \<and> 3 \<le> length chord_bytes
     \<and> ((drop_bit 4 (chord_bytes ! 2)) AND 7 \<notin> {0..6}
          \<or> (chord_bytes ! 2) AND 0x0F \<notin> {1..7})"
  then have "parse_note_byte (chord_bytes ! 2) = None"
    by (simp add: parse_note_byte_None_iff)
  with a assms show "parse_xf_chord_sysex chord_bytes = Some (r @ t)"
    by (simp add: parse_xf_chord_sysex_def)
qed

theorem chord_decoder_unrecognized_witness:
  "parse_xf_chord_sysex [0x31, 0x23] = None
   \<and> parse_xf_chord_sysex [0x38, 0x00, 0x31] = None
   \<and> parse_xf_chord_sysex [0x31, 0x08, 0x70] = Some ''Cm''"
proof -
  have t: "XF_CHORD_TYPES 0x23 = None" "XF_CHORD_TYPES 0x00 = Some []"
    "XF_CHORD_TYPES 0x08 = Some ''m''"
    by (simp_all add: XF_CHORD_TYPES_def XF_CHORD_TYPES_table_def)
  have "parse_xf_chord_sysex [0x31, 0x23] = None"
    using chord_decoder_unrecognized [of "[0x31, 0x23]"] t by simp
  moreover have "parse_xf_chord_sysex [0x38, 0x00, 0x31] = None"
    using chord_decoder_unrecognized [of "[0x38, 0x00, 0x31]"] t by simp
  moreover have "parse_xf_chord_sysex [0x31, 0x08, 0x70] = Some ''Cm''"
    using chord_decoder_unrecognized [of "[0x31, 0x08, 0x70]"] t parse_note_byte_C by simp
  ultimately show ?thesis by simp
qed

text \<open>
  C1 as the specification states it fails: the bass byte \<open>0x00\<close> has letter code 0,
  outside 1..7, and the three-byte sequence still decodes to a figure.
\<close>

theorem chord_decoder_bad_bass_counterexample:
  "(0x00 :: int) AND 0x0F \<notin> {1..7} \<and> parse_note_byte 0x00 = None
   \<and> parse_xf_chord_sysex [0x31, 0x00, 0x00] = Some ''C''"
  by (simp add: parse_xf_chord_sysex_def parse_note_byte_def XF_CHORD_TYPES_def
        XF_CHORD_TYPES_table_def XF_ROOT_DISP_def XF_ROOT_NOTE_def)

text \<open>
  C2 (as amended). The byte sequence \<open>(0x32, 0x02, 0x45)\<close> decodes to \<open>Dmaj7/G#\<close>: the
  bass byte \<open>0x45\<close> has accidental code 4 (sharp) and letter code 5, which the letter
  table maps to G. The figure \<open>Dmaj7/F#\<close> is what \<open>(0x32, 0x02, 0x44)\<close> decodes to.
\<close>

theorem decode_Dmaj7_slash:
  "parse_xf_chord_sysex [0x32, 0x02, 0x45] = Some ''Dmaj7/G#''
   \<and> parse_xf_chord_sysex [0x32, 0x02, 0x44] = Some ''Dmaj7/F#''"
  by (simp add: parse_xf_chord_sysex_def parse_note_byte_def XF_CHORD_TYPES_def
        XF_CHORD_TYPES_table_def XF_ROOT_DISP_def XF_ROOT_NOTE_def)

text \<open>C2 as the specification states it fails at its own input.\<close>

theorem decode_Dmaj7_slash_counterexample:
  "parse_xf_chord_sysex [0x32, 0x02, 0x45] \<noteq> Some ''Dmaj7/F#''"
  by (simp add: parse_xf_chord_sysex_def parse_note_byte_def XF_CHORD_TYPES_def
        XF_CHORD_TYPES_table_def XF_ROOT_DISP_def XF_ROOT_NOTE_def)

text \<open>
  C3. Every byte sequence of length 2 to 4 whose type byte is the no-chord code
  \<open>0x22\<close> decodes to the sentinel \<open>N.C.\<close>, whatever the root byte and the bass byte are.
\<close>

theorem no_chord_sentinel:
  assumes "2 \<le> length chord_bytes" and "length chord_bytes \<le> 4"
    and "chord_bytes ! 1 = 0x22"
  shows "parse_xf_chord_sysex chord_bytes = Some ''N.C.''"
  using assms XF_CHORD_TYPES_NC by (simp add: parse_xf_chord_sysex_def)

theorem no_chord_sentinel_witness:
  "parse_note_byte 0xFF = None \<and> parse_note_byte 0x00 = None
   \<and> parse_xf_chord_sysex [0xFF, 0x22, 0x00] = Some ''N.C.''"
  using no_chord_sentinel [of "[0xFF, 0x22, 0x00]"]
  by (simp add: parse_note_byte_None_iff)

text \<open>
  C4. No slash suffix is emitted when the bass is absent or equal to the root. For a
  decodable root byte and a type byte of the table: the two-byte sequence decodes to
  root followed by type (or to the sentinel), and that figure has no \<open>/\<close>; a bass byte
  127 gives the same figure as no bass byte; and so does a bass byte that decodes to
  the same note as the root.
\<close>

theorem no_slash_without_distinct_bass:
  assumes "parse_note_byte cr = Some root_str" and "XF_CHORD_TYPES ct = Some type_str"
  shows "parse_xf_chord_sysex [cr, ct]
           = Some (if type_str = ''N.C.'' then ''N.C.'' else root_str @ type_str)
       \<and> (\<forall>fig. parse_xf_chord_sysex [cr, ct] = Some fig \<longrightarrow> CHR ''/'' \<notin> set fig)
       \<and> parse_xf_chord_sysex [cr, ct, 127] = parse_xf_chord_sysex [cr, ct]
       \<and> (parse_note_byte bn = Some root_str
            \<longrightarrow> parse_xf_chord_sysex [cr, ct, bn] = parse_xf_chord_sysex [cr, ct])"
proof -
  have two: "parse_xf_chord_sysex [cr, ct]
      = Some (if type_str = ''N.C.'' then ''N.C.'' else root_str @ type_str)"
    using assms by (simp add: parse_xf_chord_sysex_def parse_note_byte_127)
  have "CHR ''/'' \<notin> set root_str" "CHR ''/'' \<notin> set type_str"
    using assms parse_note_byte_no_slash XF_CHORD_TYPES_no_slash by blast+
  then have noslash: "\<forall>fig. parse_xf_chord_sysex [cr, ct] = Some fig \<longrightarrow> CHR ''/'' \<notin> set fig"
    using two by auto
  have three: "parse_xf_chord_sysex [cr, ct, 127] = parse_xf_chord_sysex [cr, ct]"
    using assms by (simp add: parse_xf_chord_sysex_def parse_note_byte_127)
  have same: "parse_note_byte bn = Some root_str
      \<longrightarrow> parse_xf_chord_sysex [cr, ct, bn] = parse_xf_chord_sysex [cr, ct]"
    using assms by (simp add: parse_xf_chord_sysex_def parse_note_byte_127)
  from two noslash three same show ?thesis by blast
qed

theorem no_slash_without_distinct_bass_witness:
  "parse_xf_chord_sysex [0x31, 0x0A] = Some ''Cm7''
   \<and> CHR ''/'' \<notin> set ''Cm7''
   \<and> parse_xf_chord_sysex [0x31, 0x0A, 127] = Some ''Cm7''
   \<and> parse_xf_chord_sysex [0x31, 0x0A, 0x31] = Some ''Cm7''"
proof -
  have t: "XF_CHORD_TYPES 0x0A = Some ''m7''"
    by (simp add: XF_CHORD_TYPES_def XF_CHORD_TYPES_table_def)
  show ?thesis
    using no_slash_without_distinct_bass [OF parse_note_byte_C t, of "0x31"]
      parse_note_byte_C by simp
qed

section \<open>Properties of the melody extractor\<close>

lemma close_note_cases:
  "close_note td q n st = Inr st' \<Longrightarrow>
     (map_of (open_notes st) n = None \<and> st' = st)
   \<or> (\<exists>s v. map_of (open_notes st) n = Some (s, v) \<and> q \<noteq> 0
        \<and> st' = st\<lparr>open_notes := AList.delete n (open_notes st),
                   notes_list := notes_list st @
                     [\<lparr>pitch = n, offset = td s q,
                       quarterLength = td (absolute_time_ticks st - s) q\<rparr>]\<rparr>)"
  by (auto simp: close_note_def Let_def split: option.splits if_splits)

lemma melody_step_ok:
  "q \<noteq> 0 \<Longrightarrow> \<exists>st'. melody_step td q st m = Inr st'"
  by (cases m) (auto simp: melody_step_def close_note_def Let_def split: option.splits)

lemma melody_loop_ok:
  "q \<noteq> 0 \<Longrightarrow> \<exists>st'. melody_loop td q st ms = Inr st'"
proof (induction ms arbitrary: st)
  case Nil
  then show ?case by simp
next
  case (Cons m ms)
  from melody_step_ok [OF Cons.prems] obtain st1 where "melody_step td q st m = Inr st1"
    by blast
  with Cons.IH [OF Cons.prems, of st1] show ?case by simp
qed

lemma melody_loop_append:
  "melody_loop td q st (xs @ ys) =
     (case melody_loop td q st xs of Inl e \<Rightarrow> Inl e | Inr st' \<Rightarrow> melody_loop td q st' ys)"
  by (induction xs arbitrary: st) (auto split: sum.splits)

lemma melody_step_tick:
  "melody_step td q st m = Inr st' \<Longrightarrow> absolute_time_ticks st' = absolute_time_ticks st + time m"
  by (cases m) (auto simp: melody_step_def Let_def split: if_splits dest!: close_note_cases)

lemma melody_loop_tick:
  "melody_loop td q st ms = Inr st' \<Longrightarrow>
     absolute_time_ticks st' = absolute_time_ticks st + ticks_of ms"
proof (induction ms arbitrary: st)
  case Nil
  then show ?case by (simp add: ticks_of_def)
next
  case (Cons m ms)
  then obtain st1 where s: "melody_step td q st m = Inr st1"
    and l: "melody_loop td q st1 ms = Inr st'"
    by (auto split: sum.splits)
  from Cons.IH [OF l] melody_step_tick [OF s] show ?case
    by (simp add: ticks_of_def)
qed

lemma melody_step_other:
  assumes "\<not> note_event p m" and "melody_step td q st m = Inr st'"
  shows "map_of (open_notes st') p = map_of (open_notes st) p
       \<and> (\<exists>ns. notes_list st' = notes_list st @ ns \<and> (\<forall>n\<in>set ns. pitch n \<noteq> p))"
  using assms
  by (cases m)
     (auto simp: melody_step_def Let_def update_conv' delete_conv'
           split: if_splits dest!: close_note_cases)

lemma melody_loop_other:
  assumes "\<forall>m\<in>set ms. \<not> note_event p m" and "melody_loop td q st ms = Inr st'"
  shows "map_of (open_notes st') p = map_of (open_notes st) p
       \<and> (\<exists>ns. notes_list st' = notes_list st @ ns \<and> (\<forall>n\<in>set ns. pitch n \<noteq> p))"
  using assms
proof (induction ms arbitrary: st)
  case Nil
  then show ?case by simp
next
  case (Cons m ms)
  then obtain st1 where s: "melody_step td q st m = Inr st1"
    and l: "melody_loop td q st1 ms = Inr st'"
    by (auto split: sum.splits)
  from Cons.prems have nm: "\<not> note_event p m" and nms: "\<forall>m\<in>set ms. \<not> note_event p m"
    by simp_all
  from melody_step_other [OF nm s] obtain ns1 where
    1: "map_of (open_notes st1) p = map_of (open_notes st) p"
       "notes_list st1 = notes_list st @ ns1" "\<forall>n\<in>set ns1. pitch n \<noteq> p"
    by blast
  from Cons.IH [OF nms l] obtain ns2 where
    2: "map_of (open_notes st') p = map_of (open_notes st1) p"
       "notes_list st' = notes_list st1 @ ns2" "\<forall>n\<in>set ns2. pitch n \<noteq> p"
    by blast
  from 1 2 have "notes_list st' = notes_list st @ (ns1 @ ns2)"
    "\<forall>n\<in>set (ns1 @ ns2). pitch n \<noteq> p" by auto
  with 1 2 show ?case by metis
qed

lemma melody_loop_grows:
  "melody_loop td q st ms = Inr st' \<Longrightarrow> \<exists>ns. notes_list st' = notes_list st @ ns"
proof (induction ms arbitrary: st)
  case Nil
  then show ?case by simp
next
  case (Cons m ms)
  then obtain st1 where s: "melody_step td q st m = Inr st1"
    and l: "melody_loop td q st1 ms = Inr st'"
    by (auto split: sum.splits)
  have "\<exists>ns. notes_list st1 = notes_list st @ ns"
    using s by (cases m) (auto simp: melody_step_def Let_def split: if_splits dest!: close_note_cases)
  with Cons.IH [OF l] show ?case by auto
qed

lemma note_start_step:
  "0 < v \<Longrightarrow> melody_step td q st (NoteOn d 0 p v) =
     Inr (st\<lparr>absolute_time_ticks := absolute_time_ticks st + d,
             open_notes := AList.update p (absolute_time_ticks st + d, v) (open_notes st)\<rparr>)"
  by (simp add: melody_step_def)

lemma note_end_step:
  assumes "note_end p off" and "q \<noteq> 0" and "map_of (open_notes st) p = Some (s, v)"
  shows "melody_step td q st off =
     Inr (st\<lparr>absolute_time_ticks := absolute_time_ticks st + time off,
             open_notes := AList.delete p (open_notes st),
             notes_list := notes_list st @
               [\<lparr>pitch = p, offset = td s q,
                 quarterLength = td (absolute_time_ticks st + time off - s) q\<rparr>]\<rparr>)"
  using assms by (cases off) (auto simp: melody_step_def close_note_def)

lemma note_end_step_none:
  assumes "note_end p off" and "map_of (open_notes st) p = None"
  shows "melody_step td q st off =
     Inr (st\<lparr>absolute_time_ticks := absolute_time_ticks st + time off\<rparr>)"
  using assms by (cases off) (auto simp: melody_step_def close_note_def)

lemma melody_step_distinct:
  "melody_step td q st m = Inr st' \<Longrightarrow> distinct (map fst (open_notes st))
     \<Longrightarrow> distinct (map fst (open_notes st'))"
  by (cases m)
     (auto simp: melody_step_def Let_def distinct_update distinct_delete
           split: if_splits dest!: close_note_cases)

lemma melody_loop_distinct:
  "melody_loop td q st ms = Inr st' \<Longrightarrow> distinct (map fst (open_notes st))
     \<Longrightarrow> distinct (map fst (open_notes st'))"
proof (induction ms arbitrary: st)
  case Nil
  then show ?case by simp
next
  case (Cons m ms)
  then obtain st1 where s: "melody_step td q st m = Inr st1"
    and l: "melody_loop td q st1 ms = Inr st'"
    by (auto split: sum.splits)
  from Cons.IH [OF l melody_step_distinct [OF s Cons.prems(2)]] show ?case .
qed

lemma melody_step_rel:
  assumes "\<not> note_end p m"
    and "absolute_time_ticks a = absolute_time_ticks b" and "notes_list a = notes_list b"
    and "\<forall>k. k \<noteq> p \<longrightarrow> map_of (open_notes a) k = map_of (open_notes b) k"
  shows "(\<exists>e. melody_step td q a m = Inl e \<and> melody_step td q b m = Inl e)
       \<or> (\<exists>a' b'. melody_step td q a m = Inr a' \<and> melody_step td q b m = Inr b'
            \<and> absolute_time_ticks a' = absolute_time_ticks b'
            \<and> notes_list a' = notes_list b'
            \<and> (\<forall>k. k \<noteq> p \<longrightarrow> map_of (open_notes a') k = map_of (open_notes b') k))"
  using assms
  by (cases m)
     (auto simp: melody_step_def close_note_def Let_def update_conv' delete_conv'
           split: option.splits)

lemma melody_loop_rel:
  assumes "\<forall>m\<in>set ms. \<not> note_end p m"
    and "absolute_time_ticks a = absolute_time_ticks b" and "notes_list a = notes_list b"
    and "\<forall>k. k \<noteq> p \<longrightarrow> map_of (open_notes a) k = map_of (open_notes b) k"
  shows "(\<exists>e. melody_loop td q a ms = Inl e \<and> melody_loop td q b ms = Inl e)
       \<or> (\<exists>a' b'. melody_loop td q a ms = Inr a' \<and> melody_loop td q b ms = Inr b'
            \<and> notes_list a' = notes_list b')"
  using assms
proof (induction ms arbitrary: a b)
  case Nil
  then show ?case by simp
next
  case (Cons m ms)
  from Cons.prems have nm: "\<not> note_end p m" and nms: "\<forall>m\<in>set ms. \<not> note_end p m"
    by simp_all
  from melody_step_rel [OF nm Cons.prems(2,3,4), of td q]
  show ?case
  proof
    assume "\<exists>e. melody_step td q a m = Inl e \<and> melody_step td q b m = Inl e"
    then show ?thesis by auto
  next
    assume "\<exists>a' b'. melody_step td q a m = Inr a' \<and> melody_step td q b m = Inr b'
            \<and> absolute_time_ticks a' = absolute_time_ticks b'
            \<and> notes_list a' = notes_list b'
            \<and> (\<forall>k. k \<noteq> p \<longrightarrow> map_of (open_notes a') k = map_of (open_notes b') k)"
    then obtain a' b' where ab: "melody_step td q a m = Inr a'" "melody_step td q b m = Inr b'"
      and r: "absolute_time_ticks a' = absolute_time_ticks b'" "notes_list a' = notes_list b'"
        "\<forall>k. k \<noteq> p \<longrightarrow> map_of (open_notes a') k = map_of (open_notes b') k"
      by blast
    from Cons.IH [OF nms r] ab show ?thesis by simp
  qed
qed

lemma unclosed_onset_silent:
  assumes v: "0 < v" and post: "\<forall>m\<in>set post. \<not> note_end p m"
  shows "parse_melody_with_mido td (Inr \<lparr>ticks_per_beat = tpb, merged = pre @ NoteOn d 0 p v # post\<rparr>) q
       = parse_melody_with_mido td (Inr \<lparr>ticks_per_beat = tpb, merged = pre @ OtherMeta d # post\<rparr>) q"
proof -
  let ?init = "\<lparr>absolute_time_ticks = 0, open_notes = [], notes_list = []\<rparr> :: 'a melody_state"
  show ?thesis
  proof (cases "melody_loop td q ?init pre")
    case (Inl e)
    then show ?thesis by (simp add: parse_melody_with_mido_def melody_loop_append)
  next
    case (Inr st1)
    let ?a = "st1\<lparr>absolute_time_ticks := absolute_time_ticks st1 + d,
             open_notes := AList.update p (absolute_time_ticks st1 + d, v) (open_notes st1)\<rparr>"
    let ?b = "st1\<lparr>absolute_time_ticks := absolute_time_ticks st1 + d\<rparr>"
    have sa: "melody_step td q st1 (NoteOn d 0 p v) = Inr ?a"
      using note_start_step [OF v] .
    have sb: "melody_step td q st1 (OtherMeta d) = Inr ?b"
      by (simp add: melody_step_def)
    have "(\<exists>e. melody_loop td q ?a post = Inl e \<and> melody_loop td q ?b post = Inl e)
       \<or> (\<exists>a' b'. melody_loop td q ?a post = Inr a' \<and> melody_loop td q ?b post = Inr b'
            \<and> notes_list a' = notes_list b')"
      by (rule melody_loop_rel [OF post]) (simp_all add: update_conv')
    then show ?thesis
      using Inr sa sb by (auto simp: parse_melody_with_mido_def melody_loop_append)
  qed
qed

text \<open>
  C5. A note-start of pitch \<open>p\<close> with non-zero velocity on channel 0, at tick \<open>s\<close>,
  followed by messages none of which is a note-on or note-off of \<open>p\<close> on channel 0,
  and then by a note-end of \<open>p\<close> (a note-off, or a note-on with velocity 0) at tick
  \<open>e\<close>: with \<open>ticks_per_quarter = q\<close> non-zero, the scan returns, and that note-end
  appends exactly one note, of pitch \<open>p\<close>, offset \<open>s / q\<close> and duration \<open>(e - s) / q\<close>,
  to what the scan had emitted before; nothing emitted between the two messages has
  pitch \<open>p\<close>. This includes \<open>e = s\<close>, where the duration is \<open>0 / q\<close>.
\<close>

theorem paired_note_emitted:
  fixes truediv :: "int \<Rightarrow> int \<Rightarrow> 'q"
  assumes q: "q \<noteq> 0" and v: "0 < v"
    and mid: "\<forall>m\<in>set mid. \<not> note_event p m"
    and off: "note_end p off"
    and s: "s = ticks_of pre + d"
    and e: "e = s + ticks_of mid + time off"
  shows "\<exists>ns1 ns2 ns3.
      parse_melody_with_mido truediv (Inr \<lparr>ticks_per_beat = tpb, merged = pre\<rparr>) q = Inr ns1
    \<and> parse_melody_with_mido truediv
          (Inr \<lparr>ticks_per_beat = tpb, merged = pre @ NoteOn d 0 p v # mid\<rparr>) q
        = Inr (ns1 @ ns2)
    \<and> (\<forall>n\<in>set ns2. pitch n \<noteq> p)
    \<and> parse_melody_with_mido truediv
          (Inr \<lparr>ticks_per_beat = tpb, merged = pre @ NoteOn d 0 p v # mid @ [off]\<rparr>) q
        = Inr (ns1 @ ns2 @
                [\<lparr>pitch = p, offset = truediv s q, quarterLength = truediv (e - s) q\<rparr>])
    \<and> parse_melody_with_mido truediv
          (Inr \<lparr>ticks_per_beat = tpb, merged = pre @ NoteOn d 0 p v # mid @ off # post\<rparr>) q
        = Inr (ns1 @ ns2 @
                [\<lparr>pitch = p, offset = truediv s q, quarterLength = truediv (e - s) q\<rparr>] @ ns3)"
proof -
  let ?init = "\<lparr>absolute_time_ticks = 0, open_notes = [], notes_list = []\<rparr> :: 'q melody_state"
  let ?L = "melody_loop truediv q"
  let ?on = "NoteOn d 0 p v"
  let ?n = "\<lparr>pitch = p, offset = truediv s q, quarterLength = truediv (e - s) q\<rparr>"
  from melody_loop_ok [OF q] obtain st1 where l1: "?L ?init pre = Inr st1" by blast
  have t1: "absolute_time_ticks st1 = ticks_of pre"
    using melody_loop_tick [OF l1] by simp
  define st2 where "st2 = st1\<lparr>absolute_time_ticks := s, open_notes := AList.update p (s, v) (open_notes st1)\<rparr>"
  have s2: "melody_step truediv q st1 ?on = Inr st2"
    using note_start_step [OF v, of truediv q st1 d p] t1 s by (simp add: st2_def)
  from melody_loop_ok [OF q] obtain st3 where l3: "?L st2 mid = Inr st3" by blast
  from melody_loop_other [OF mid l3] obtain ns2 where
    o3: "map_of (open_notes st3) p = map_of (open_notes st2) p"
    and n3: "notes_list st3 = notes_list st2 @ ns2" and p3: "\<forall>n\<in>set ns2. pitch n \<noteq> p"
    by blast
  have o3': "map_of (open_notes st3) p = Some (s, v)"
    using o3 by (simp add: st2_def update_conv')
  have t3: "absolute_time_ticks st3 = s + ticks_of mid"
    using melody_loop_tick [OF l3] by (simp add: st2_def)
  define st4 where "st4 = st3\<lparr>absolute_time_ticks := absolute_time_ticks st3 + time off,
             open_notes := AList.delete p (open_notes st3),
             notes_list := notes_list st3 @ [?n]\<rparr>"
  have s4: "melody_step truediv q st3 off = Inr st4"
    using note_end_step [OF off q o3', of truediv] t3 e by (simp add: st4_def)
  from melody_loop_ok [OF q] obtain st5 where l5: "?L st4 post = Inr st5" by blast
  from melody_loop_grows [OF l5] obtain ns3 where n5: "notes_list st5 = notes_list st4 @ ns3"
    by blast
  have n2: "notes_list st2 = notes_list st1" by (simp add: st2_def)
  have n4: "notes_list st4 = notes_list st1 @ ns2 @ [?n]" by (simp add: st4_def n3 n2)
  have a: "?L ?init (pre @ ?on # mid) = Inr st3"
    using l1 s2 l3 by (simp add: melody_loop_append)
  have b: "?L ?init (pre @ ?on # mid @ [off]) = Inr st4"
    using l1 s2 l3 s4 by (simp add: melody_loop_append)
  have c: "?L ?init (pre @ ?on # mid @ off # post) = Inr st5"
    using l1 s2 l3 s4 l5 by (simp add: melody_loop_append)
  have "parse_melody_with_mido truediv (Inr \<lparr>ticks_per_beat = tpb, merged = pre\<rparr>) q
          = Inr (notes_list st1)"
    using l1 by (simp add: parse_melody_with_mido_def)
  moreover have "parse_melody_with_mido truediv
          (Inr \<lparr>ticks_per_beat = tpb, merged = pre @ ?on # mid\<rparr>) q
        = Inr (notes_list st1 @ ns2)"
    using a n3 n2 by (simp add: parse_melody_with_mido_def)
  moreover have "parse_melody_with_mido truediv
          (Inr \<lparr>ticks_per_beat = tpb, merged = pre @ ?on # mid @ [off]\<rparr>) q
        = Inr (notes_list st1 @ ns2 @ [?n])"
    using b n4 by (simp add: parse_melody_with_mido_def)
  moreover have "parse_melody_with_mido truediv
          (Inr \<lparr>ticks_per_beat = tpb, merged = pre @ ?on # mid @ off # post\<rparr>) q
        = Inr (notes_list st1 @ ns2 @ [?n] @ ns3)"
    using c n4 n5 by (simp add: parse_melody_with_mido_def)
  ultimately show ?thesis using p3 by blast
qed

theorem paired_note_emitted_witness:
  "\<exists>ns1 ns2 ns3.
      parse_melody_with_mido (\<lambda>a b. rat_of_int a / rat_of_int b)
          (Inr \<lparr>ticks_per_beat = 480, merged = [NoteOn 0 0 60 100]\<rparr>) 480 = Inr ns1
    \<and> parse_melody_with_mido (\<lambda>a b. rat_of_int a / rat_of_int b)
          (Inr \<lparr>ticks_per_beat = 480,
                merged = [NoteOn 0 0 60 100] @ NoteOn 240 0 60 90 #
                           [NoteOn 0 0 62 80, NoteOff 240 0 62 0]\<rparr>) 480
        = Inr (ns1 @ ns2)
    \<and> (\<forall>n\<in>set ns2. pitch n \<noteq> 60)
    \<and> parse_melody_with_mido (\<lambda>a b. rat_of_int a / rat_of_int b)
          (Inr \<lparr>ticks_per_beat = 480,
                merged = [NoteOn 0 0 60 100] @ NoteOn 240 0 60 90 #
                           [NoteOn 0 0 62 80, NoteOff 240 0 62 0] @ [NoteOn 0 0 60 0]\<rparr>) 480
        = Inr (ns1 @ ns2 @
                [\<lparr>pitch = 60, offset = rat_of_int 240 / rat_of_int 480,
                  quarterLength = rat_of_int (480 - 240) / rat_of_int 480\<rparr>])
    \<and> parse_melody_with_mido (\<lambda>a b. rat_of_int a / rat_of_int b)
          (Inr \<lparr>ticks_per_beat = 480,
                merged = [NoteOn 0 0 60 100] @ NoteOn 240 0 60 90 #
                           [NoteOn 0 0 62 80, NoteOff 240 0 62 0] @ NoteOn 0 0 60 0 #
                           [NoteOn 7 0 64 1, NoteOff 0 0 64 0]\<rparr>) 480
        = Inr (ns1 @ ns2 @
                [\<lparr>pitch = 60, offset = rat_of_int 240 / rat_of_int 480,
                  quarterLength = rat_of_int (480 - 240) / rat_of_int 480\<rparr>] @ ns3)"
  by (rule paired_note_emitted) (simp_all add: ticks_of_def)

text \<open>
  C6. The pending-note table never holds two entries for one pitch: at every point
  of a scan the keys of \<open>open_notes\<close> are distinct. A note-start for a pitch replaces
  whatever entry the pitch had (the table then holds the new onset, other pitches
  are untouched, and no note is emitted); a note-end for a pitch without an entry
  changes nothing but the tick count; and a note-start that no later message ends
  yields no note: the scan returns what it returns when the note-start is replaced by
  a meta message of the same delta time.
\<close>

theorem pending_note_table:
  fixes truediv :: "int \<Rightarrow> int \<Rightarrow> 'q"
  shows "(\<forall>st. melody_loop truediv q
                \<lparr>absolute_time_ticks = 0, open_notes = [], notes_list = []\<rparr> ms = Inr st
              \<longrightarrow> distinct (map fst (open_notes st)))
       \<and> (0 < v \<longrightarrow>
            (\<exists>st'. melody_step truediv q st0 (NoteOn d 0 p v) = Inr st'
                \<and> notes_list st' = notes_list st0
                \<and> map_of (open_notes st') p = Some (absolute_time_ticks st0 + d, v)
                \<and> (\<forall>k. k \<noteq> p \<longrightarrow> map_of (open_notes st') k = map_of (open_notes st0) k)))
       \<and> (note_end p off \<and> map_of (open_notes st0) p = None \<longrightarrow>
            melody_step truediv q st0 off
              = Inr (st0\<lparr>absolute_time_ticks := absolute_time_ticks st0 + time off\<rparr>))
       \<and> (0 < v \<and> (\<forall>m\<in>set post. \<not> note_end p m) \<longrightarrow>
            parse_melody_with_mido truediv
                (Inr \<lparr>ticks_per_beat = tpb, merged = pre @ NoteOn d 0 p v # post\<rparr>) q
              = parse_melody_with_mido truediv
                  (Inr \<lparr>ticks_per_beat = tpb, merged = pre @ OtherMeta d # post\<rparr>) q)"
proof (intro conjI allI impI)
  fix st
  assume "melody_loop truediv q
            \<lparr>absolute_time_ticks = 0, open_notes = [], notes_list = []\<rparr> ms = Inr st"
  from melody_loop_distinct [OF this] show "distinct (map fst (open_notes st))" by simp
next
  assume v: "0 < v"
  show "\<exists>st'. melody_step truediv q st0 (NoteOn d 0 p v) = Inr st'
          \<and> notes_list st' = notes_list st0
          \<and> map_of (open_notes st') p = Some (absolute_time_ticks st0 + d, v)
          \<and> (\<forall>k. k \<noteq> p \<longrightarrow> map_of (open_notes st') k = map_of (open_notes st0) k)"
    using note_start_step [OF v, of truediv q st0 d p] by (simp add: update_conv')
next
  assume "note_end p off \<and> map_of (open_notes st0) p = None"
  then show "melody_step truediv q st0 off
      = Inr (st0\<lparr>absolute_time_ticks := absolute_time_ticks st0 + time off\<rparr>)"
    using note_end_step_none by blast
next
  assume "0 < v \<and> (\<forall>m\<in>set post. \<not> note_end p m)"
  then show "parse_melody_with_mido truediv
        (Inr \<lparr>ticks_per_beat = tpb, merged = pre @ NoteOn d 0 p v # post\<rparr>) q
      = parse_melody_with_mido truediv
          (Inr \<lparr>ticks_per_beat = tpb, merged = pre @ OtherMeta d # post\<rparr>) q"
    using unclosed_onset_silent by blast
qed

theorem pending_note_table_witness:
  "distinct (map fst [(60 :: int, (10 :: int, 90 :: int))])
   \<and> melody_step (\<lambda>a b. rat_of_int a / rat_of_int b) 480
        \<lparr>absolute_time_ticks = 0, open_notes = [(60, (0, 100))], notes_list = []\<rparr>
        (NoteOn 10 0 60 90)
      = Inr \<lparr>absolute_time_ticks = 10, open_notes = [(60, (10, 90))], notes_list = []\<rparr>
   \<and> melody_step (\<lambda>a b. rat_of_int a / rat_of_int b) 480
        \<lparr>absolute_time_ticks = 0, open_notes = [(60, (0, 100))], notes_list = []\<rparr>
        (NoteOff 5 0 61 0)
      = Inr \<lparr>absolute_time_ticks = 5, open_notes = [(60, (0, 100))], notes_list = []\<rparr>
   \<and> parse_melody_with_mido (\<lambda>a b. rat_of_int a / rat_of_int b)
        (Inr \<lparr>ticks_per_beat = 480,
              merged = [NoteOn 0 0 62 70] @ NoteOn 10 0 60 90 # [NoteOff 470 0 62 0]\<rparr>) 480
      = Inr [\<lparr>pitch = 62, offset = 0, quarterLength = 1\<rparr>]"
proof -
  let ?td = "\<lambda>a b. rat_of_int a / rat_of_int b"
  let ?st0 = "\<lparr>absolute_time_ticks = 0, open_notes = [(60, (0, 100))], notes_list = []\<rparr>
                :: rat melody_state"
  have l: "melody_loop ?td 480
             \<lparr>absolute_time_ticks = 0, open_notes = [], notes_list = []\<rparr>
             [NoteOn 0 0 60 100, NoteOn 10 0 60 90]
           = Inr \<lparr>absolute_time_ticks = 10, open_notes = [(60, (10, 90))], notes_list = []\<rparr>"
    by (simp add: melody_step_def)
  have e: "parse_melody_with_mido ?td
        (Inr \<lparr>ticks_per_beat = 480,
              merged = [NoteOn 0 0 62 70] @ OtherMeta 10 # [NoteOff 470 0 62 0]\<rparr>) 480
      = Inr [\<lparr>pitch = 62, offset = 0, quarterLength = 1\<rparr>]"
    by (simp add: parse_melody_with_mido_def melody_step_def close_note_def)
  note w = pending_note_table [where truediv = ?td and q = 480 and v = 90 and d = 10
      and ms = "[NoteOn 0 0 60 100, NoteOn 10 0 60 90]" and tpb = 480
      and pre = "[NoteOn 0 0 62 70]" and post = "[NoteOff 470 0 62 0]"]
  have 1: "distinct (map fst [(60 :: int, (10 :: int, 90 :: int))])"
    using w [where ?st0.0 = ?st0 and p = 60 and off = "NoteOff 5 0 61 0"] l by simp
  have 2: "melody_step ?td 480 ?st0 (NoteOn 10 0 60 90)
      = Inr \<lparr>absolute_time_ticks = 10, open_notes = [(60, (10, 90))], notes_list = []\<rparr>"
    by (simp add: melody_step_def)
  have 3: "melody_step ?td 480 ?st0 (NoteOff 5 0 61 0)
      = Inr \<lparr>absolute_time_ticks = 5, open_notes = [(60, (0, 100))], notes_list = []\<rparr>"
    using w [where ?st0.0 = ?st0 and p = 61 and off = "NoteOff 5 0 61 0"] by simp
  have 4: "parse_melody_with_mido ?td
        (Inr \<lparr>ticks_per_beat = 480,
              merged = [NoteOn 0 0 62 70] @ NoteOn 10 0 60 90 # [NoteOff 470 0 62 0]\<rparr>) 480
      = Inr [\<lparr>pitch = 62, offset = 0, quarterLength = 1\<rparr>]"
    using w [where ?st0.0 = ?st0 and p = 60 and off = "NoteOff 5 0 61 0"] e by simp
  from 1 2 3 4 show ?thesis by blast
qed

section \<open>Properties of the rehearsal decoder\<close>





section \<open>Properties of the chord-figure normalizer\<close>























lemmas normalizer_eval_defs =
  normalize_chord_figure_def match_note_name_def word_boundary_def is_word_def
  simplify_enharmonics_def enharmonic_map_def




section \<open>Properties of the chord scan\<close>

lemmas matcher_eval_defs =
  chord_pattern_at_def chord_body_def quality_def seq_def alt_def opt_def wordb_def
  note_letter_def word_boundary_def is_word_def

lemma chord_step_no_text:
  assumes "current_chord_text valid m = None
           \<or> (\<exists>txt. current_chord_text valid m = Some txt \<and> make_chord valid txt = None)"
  shows "chord_step truediv valid truthy q (t, chords) m = (t + time m, chords)"
  using assms by (auto simp: Let_def)

lemma chord_step_OtherMeta:
  "chord_step truediv valid truthy q (t, chords) (OtherMeta d) = (t + d, chords)"
  by (simp add: current_chord_text_def)

lemma parse_chords_skip:
  assumes "current_chord_text valid m = None
           \<or> (\<exists>txt. current_chord_text valid m = Some txt \<and> make_chord valid txt = None)"
  shows "parse_chords_from_midi truediv valid truthy
           (Inr \<lparr>ticks_per_beat = tpb, merged = pre @ m # post\<rparr>) q
       = parse_chords_from_midi truediv valid truthy
           (Inr \<lparr>ticks_per_beat = tpb, merged = pre @ OtherMeta (time m) # post\<rparr>) q"
proof -
  obtain t chords where s: "foldl (chord_step truediv valid truthy q) (0, []) pre = (t, chords)"
    by (cases "foldl (chord_step truediv valid truthy q) (0, []) pre")
  show ?thesis
    using chord_step_no_text [OF assms, of truediv truthy q t chords]
    by (simp add: parse_chords_from_midi_def s chord_step_OtherMeta del: chord_step.simps)
qed

lemma text_event_chord_text:
  "current_chord_text valid (TextMeta d k raw) = text_chord valid raw"
  by (simp add: current_chord_text_def)

text \<open>
  C9 (as amended). For a free-text meta-event the stripped text is searched once, and
  the first chord-like candidate is handed to the validator. If it is accepted, the
  candidate is the chord text of the event. If it is rejected, the event yields no
  chord, whatever else its text holds: no later substring is tried, no error is
  raised, and the scan goes on as if the event were a meta message of the same delta
  time.
\<close>

theorem text_heuristic_first_match_only:
  "(strip raw \<noteq> [] \<and> re_search_chord None (strip raw) = Some cand \<and> valid cand
      \<longrightarrow> text_chord valid raw = Some cand)
   \<and> (re_search_chord None (strip raw) = Some cand \<and> \<not> valid cand
      \<longrightarrow> text_chord valid raw = None
        \<and> chord_step truediv valid truthy q (t, chords) (TextMeta d k raw) = (t + d, chords)
        \<and> parse_chords_from_midi truediv valid truthy
             (Inr \<lparr>ticks_per_beat = tpb, merged = pre @ TextMeta d k raw # post\<rparr>) q
          = parse_chords_from_midi truediv valid truthy
             (Inr \<lparr>ticks_per_beat = tpb, merged = pre @ OtherMeta d # post\<rparr>) q)"
proof (intro conjI impI)
  assume "strip raw \<noteq> [] \<and> re_search_chord None (strip raw) = Some cand \<and> valid cand"
  then show "text_chord valid raw = Some cand"
    by (simp add: text_chord_def)
next
  assume a: "re_search_chord None (strip raw) = Some cand \<and> \<not> valid cand"
  then show n: "text_chord valid raw = None"
    by (simp add: text_chord_def Let_def)
  then have c: "current_chord_text valid (TextMeta d k raw) = None"
    by (simp add: text_event_chord_text)
  show "chord_step truediv valid truthy q (t, chords) (TextMeta d k raw) = (t + d, chords)"
    using chord_step_no_text [of valid "TextMeta d k raw" truediv truthy q t chords] c by simp
  show "parse_chords_from_midi truediv valid truthy
             (Inr \<lparr>ticks_per_beat = tpb, merged = pre @ TextMeta d k raw # post\<rparr>) q
          = parse_chords_from_midi truediv valid truthy
             (Inr \<lparr>ticks_per_beat = tpb, merged = pre @ OtherMeta d # post\<rparr>) q"
    using parse_chords_skip [of valid "TextMeta d k raw" truediv truthy tpb pre post q] c
    by simp
qed

theorem text_heuristic_first_match_only_witness:
  "text_chord ((=) ''Am'') ''  [Am] D_ '' = Some ''Am''
   \<and> text_chord ((=) ''Am'') ''D_ Am'' = None
   \<and> chord_step Fract ((=) ''Am'') ((=) (ChordSymbol ''Am'')) 480 (0, [])
        (TextMeta 480 Lyrics ''D_ Am'') = (480, [])
   \<and> parse_chords_from_midi Fract ((=) ''Am'') ((=) (ChordSymbol ''Am''))
        (Inr \<lparr>ticks_per_beat = 480,
              merged = [] @ TextMeta 480 Lyrics ''D_ Am'' # [TextMeta 480 Marker ''Am'']\<rparr>) 480
      = Inr [(2, ChordSymbol ''Am'')]"
proof -
  have s1: "strip ''  [Am] D_ '' = ''[Am] D_''" "strip ''D_ Am'' = ''D_ Am''"
    by (simp_all add: strip_def py_isspace_def)
  have r1: "re_search_chord None ''[Am] D_'' = Some ''Am''"
    by (simp add: matcher_eval_defs)
  have r2: "re_search_chord None ''D_ Am'' = Some ''D_''"
    by (simp add: matcher_eval_defs)
  have e: "parse_chords_from_midi Fract ((=) ''Am'') ((=) (ChordSymbol ''Am''))
        (Inr \<lparr>ticks_per_beat = 480,
              merged = [] @ OtherMeta 480 # [TextMeta 480 Marker ''Am'']\<rparr>) 480
      = Inr [(2, ChordSymbol ''Am'')]"
    by (simp add: parse_chords_from_midi_def current_chord_text_def text_chord_def
          strip_def py_isspace_def matcher_eval_defs make_chord_def normalizer_eval_defs
          Fract_of_int_quotient)
  have "text_chord ((=) ''Am'') ''  [Am] D_ '' = Some ''Am''"
    using text_heuristic_first_match_only [of "''  [Am] D_ ''" "''Am''" "(=) ''Am''"] s1 r1
    by simp
  moreover have "text_chord ((=) ''Am'') ''D_ Am'' = None
   \<and> chord_step Fract ((=) ''Am'') ((=) (ChordSymbol ''Am'')) 480 (0, [])
        (TextMeta 480 Lyrics ''D_ Am'') = (480, [])
   \<and> parse_chords_from_midi Fract ((=) ''Am'') ((=) (ChordSymbol ''Am''))
        (Inr \<lparr>ticks_per_beat = 480,
              merged = [] @ TextMeta 480 Lyrics ''D_ Am'' # [TextMeta 480 Marker ''Am'']\<rparr>) 480
      = Inr [(2, ChordSymbol ''Am'')]"
    using text_heuristic_first_match_only [of "''D_ Am''" "''D_''" "(=) ''Am''" Fract
        "(=) (ChordSymbol ''Am'')" 480 0 "[]" 480 Lyrics 480 "[]" "[TextMeta 480 Marker ''Am'']"]
      s1 r2 e
    by simp
  ultimately show ?thesis by blast
qed

text \<open>
  C9 as the specification states it fails: in the text \<open>D_ Am\<close> the first candidate is
  \<open>D_\<close>; with a validator that rejects it and accepts \<open>Am\<close>, the later substring \<open>Am\<close>,
  which alone would give a chord, gives none.
\<close>

theorem text_heuristic_no_retry_counterexample:
  "re_search_chord None ''D_ Am'' = Some ''D_'' \<and> \<not> ((=) ''Am'') ''D_''
   \<and> re_search_chord None ''Am'' = Some ''Am'' \<and> ((=) ''Am'') ''Am''
   \<and> text_chord ((=) ''Am'') ''Am'' = Some ''Am''
   \<and> text_chord ((=) ''Am'') ''D_ Am'' = None"
  by (simp add: text_chord_def strip_def py_isspace_def matcher_eval_defs)

text \<open>
  C10 (as amended). A failure to open the file is fatal in the melody scan, which
  passes it on to its caller. The chord scan and the rehearsal scan catch it and
  return the empty list. On an opened stream the chord and rehearsal scans always
  return a list: an event that gives no chord text (an XF payload that does not
  decode, a text whose candidate is rejected) or whose chord cannot be built is
  skipped, and the scan goes on as if it were a meta message of the same delta time.
\<close>

theorem open_failure_and_event_failures:
  "parse_melody_with_mido truediv (Inl e) q = Inl e
   \<and> parse_chords_from_midi truediv valid truthy (Inl e) q = Inr []
   \<and> parse_rehe_from_midi (Inl e) = Inr []
   \<and> (\<exists>cs. parse_chords_from_midi truediv valid truthy (Inr mf) q = Inr cs)
   \<and> (\<exists>ms. parse_rehe_from_midi (Inr mf) = Inr ms)
   \<and> (parse_xf_chord_sysex (filter (\<lambda>b. b \<noteq> 0x7F) payload) = None
        \<longrightarrow> current_chord_text valid (SequencerSpecific d (0x43 # 0x7B # 0x01 # payload)) = None)
   \<and> (current_chord_text valid m = None
        \<or> (\<exists>txt. current_chord_text valid m = Some txt \<and> make_chord valid txt = None)
        \<longrightarrow> chord_step truediv valid truthy q (t, chords) m = (t + time m, chords)
          \<and> parse_chords_from_midi truediv valid truthy
               (Inr \<lparr>ticks_per_beat = tpb, merged = pre @ m # post\<rparr>) q
            = parse_chords_from_midi truediv valid truthy
               (Inr \<lparr>ticks_per_beat = tpb, merged = pre @ OtherMeta (time m) # post\<rparr>) q)"
proof (intro conjI impI)
  show "parse_melody_with_mido truediv (Inl e) q = Inl e"
    by (simp add: parse_melody_with_mido_def)
  show "parse_chords_from_midi truediv valid truthy (Inl e) q = Inr []"
    by (simp add: parse_chords_from_midi_def)
  show "parse_rehe_from_midi (Inl e) = Inr []"
    by (simp add: parse_rehe_from_midi_def)
  show "\<exists>cs. parse_chords_from_midi truediv valid truthy (Inr mf) q = Inr cs"
    by (simp add: parse_chords_from_midi_def)
  show "\<exists>ms. parse_rehe_from_midi (Inr mf) = Inr ms"
    by (simp add: parse_rehe_from_midi_def)
next
  assume "parse_xf_chord_sysex (filter (\<lambda>b. b \<noteq> 0x7F) payload) = None"
  then show "current_chord_text valid (SequencerSpecific d (0x43 # 0x7B # 0x01 # payload)) = None"
    by (simp add: current_chord_text_def xf_chord_text_def XF_META_HEADER_def XF_CHORD_ID_def
          Let_def)
next
  assume a: "current_chord_text valid m = None
      \<or> (\<exists>txt. current_chord_text valid m = Some txt \<and> make_chord valid txt = None)"
  then show "chord_step truediv valid truthy q (t, chords) m = (t + time m, chords)"
    by (rule chord_step_no_text)
  from a show "parse_chords_from_midi truediv valid truthy
        (Inr \<lparr>ticks_per_beat = tpb, merged = pre @ m # post\<rparr>) q
      = parse_chords_from_midi truediv valid truthy
        (Inr \<lparr>ticks_per_beat = tpb, merged = pre @ OtherMeta (time m) # post\<rparr>) q"
    by (rule parse_chords_skip)
qed

theorem open_failure_and_event_failures_witness:
  "parse_xf_chord_sysex (filter (\<lambda>b. b \<noteq> 0x7F) [0x38, 0x7F, 0x00]) = None
   \<and> current_chord_text ((=) ''Am'') (SequencerSpecific 240 [0x43, 0x7B, 0x01, 0x38, 0x7F, 0x00])
       = None
   \<and> chord_step Fract ((=) ''Am'') ((=) (ChordSymbol ''Am'')) 480 (0, [])
        (SequencerSpecific 240 [0x43, 0x7B, 0x01, 0x38, 0x7F, 0x00]) = (240, [])
   \<and> parse_chords_from_midi Fract ((=) ''Am'') ((=) (ChordSymbol ''Am''))
        (Inr \<lparr>ticks_per_beat = 480,
              merged = [] @ SequencerSpecific 240 [0x43, 0x7B, 0x01, 0x38, 0x7F, 0x00]
                         # [TextMeta 240 Marker ''Am'']\<rparr>) 480
      = Inr [(1, ChordSymbol ''Am'')]"
proof -
  let ?m = "SequencerSpecific 240 [0x43, 0x7B, 0x01, 0x38, 0x7F, 0x00]"
  have p: "parse_xf_chord_sysex (filter (\<lambda>b. b \<noteq> 0x7F) [0x38, 0x7F, 0x00]) = None"
    by (simp add: parse_xf_chord_sysex_def parse_note_byte_def XF_CHORD_TYPES_def
          XF_CHORD_TYPES_table_def XF_ROOT_DISP_def XF_ROOT_NOTE_def)
  have e: "parse_chords_from_midi Fract ((=) ''Am'') ((=) (ChordSymbol ''Am''))
        (Inr \<lparr>ticks_per_beat = 480,
              merged = [] @ OtherMeta 240 # [TextMeta 240 Marker ''Am'']\<rparr>) 480
      = Inr [(1, ChordSymbol ''Am'')]"
    by (simp add: parse_chords_from_midi_def current_chord_text_def text_chord_def
          strip_def py_isspace_def matcher_eval_defs make_chord_def normalizer_eval_defs
          Fract_of_int_quotient)
  note w = open_failure_and_event_failures [where valid = "(=) ''Am''" and truediv = Fract
      and truthy = "(=) (ChordSymbol ''Am'')" and q = 480 and t = 0 and chords = "[]"
      and payload = "[0x38, 0x7F, 0x00]" and d = 240 and m = ?m and tpb = 480
      and pre = "[]" and post = "[TextMeta 240 Marker ''Am'']"]
  have c: "current_chord_text ((=) ''Am'') ?m = None"
    using w p by blast
  with w e p show ?thesis by simp
qed

text \<open>
  C10 as the specification states it fails: with a file that cannot be opened the
  rehearsal scan and the chord scan return normally, with the empty list.
\<close>

theorem open_failure_not_fatal_counterexample:
  "parse_rehe_from_midi (Inl MidiOpenError) = Inr []
   \<and> parse_rehe_from_midi (Inl MidiOpenError) \<noteq> Inl MidiOpenError
   \<and> parse_chords_from_midi Fract ((=) ''Am'') ((=) (ChordSymbol ''Am''))
        (Inl MidiOpenError) 480 = Inr []"
  by (simp add: parse_rehe_from_midi_def parse_chords_from_midi_def)

end
